theory Spec2Isabelle
  imports Complex_Main "HOL-Library.Sublist"
begin

section \<open>Data model (types/trading.ts)\<close>

text \<open>
  A JavaScript \<open>number\<close> that was decoded from a JSON text is never \<open>NaN\<close>, so
  \<open>===\<close> on two such numbers is an equivalence; it is modelled by HOL equality on
  \<open>real\<close>. No claim below does arithmetic on a payload field: the fields are only
  carried and compared.
\<close>

type_synonym number = real

datatype signal_type = long | short

datatype margin_type = ISOLATED | CROSS

datatype market_sentiment = bullish | bearish | neutral

text \<open>
  \<open>interface TradingSignal\<close>. The field \<open>id\<close> is called \<open>signal_id\<close> here
  (\<open>id\<close> is the identity function of HOL). The fields declared with \<open>?\<close> are
  optional.
\<close>

record TradingSignal =
  signal_id :: number
  symbol :: string
  signal_type :: signal_type
  entry_price :: number
  current_price :: number
  target_price :: number
  stop_loss :: number
  accuracy :: number
  confidence :: number
  created_at :: string
  market_phase :: string
  validation_count :: number
  leverage :: "number option"
  margin_type :: "margin_type option"
  position_size :: "number option"
  trading_fee :: "number option"
  entry_fee :: "number option"
  exit_fee :: "number option"
  total_fee :: "number option"
  expected_profit :: "number option"
  liquidation_price :: "number option"
  funding_rate :: "number option"
  last_price :: "number option"

record SystemMetrics =
  overall_accuracy :: number
  total_signals :: number
  successful_predictions :: number
  average_confidence :: number
  market_sentiment :: market_sentiment

text \<open>
  \<open>interface WebSocketMessage\<close>, as \<open>handleMessage\<close> reads it: the two tags it has
  a \<open>case\<close> for (\<open>signal_update\<close>, \<open>metrics_update\<close>), with their
  payloads; any other document whose \<open>type\<close> no \<open>case\<close> matches (the
  string is the tag, \<open>market_data\<close> for one, and empty when the document has
  none); and the JSON document \<open>null\<close>, which
  \<open>JSON.parse\<close> decodes without error and on which \<open>message.type\<close> raises a
  \<open>TypeError\<close>.
\<close>

datatype message =
    SignalUpdate TradingSignal
  | MetricsUpdate SystemMetrics
  | OtherType string
  | JsonNull

text \<open>
  Exceptions: the \<open>SyntaxError\<close> of \<open>JSON.parse\<close>, the \<open>TypeError\<close> of a
  property read on \<open>null\<close>, and anything else a handler of the application throws.
\<close>

datatype exn = SyntaxError | TypeError | Thrown

section \<open>View state reducer (MonitoringPanel.handleMessage)\<close>

text \<open>The two \<open>useState\<close> cells of \<open>MonitoringPanel\<close>.\<close>

record panel =
  signals :: "TradingSignal list"
  metrics :: "SystemMetrics option"

definition initial_panel :: panel where
  "initial_panel = \<lparr>signals = [], metrics = None\<rparr>"

text \<open>
  \<open>Array.prototype.findIndex\<close>: the index of the first element that satisfies the
  predicate, \<open>-1\<close> when there is none.
\<close>

fun findIndex_from :: "('a \<Rightarrow> bool) \<Rightarrow> 'a list \<Rightarrow> int \<Rightarrow> int" where
  "findIndex_from P [] k = - 1"
| "findIndex_from P (x # xs) k = (if P x then k else findIndex_from P xs (k + 1))"

definition findIndex :: "('a \<Rightarrow> bool) \<Rightarrow> 'a list \<Rightarrow> int" where
  "findIndex P xs = findIndex_from P xs 0"

text \<open>
  The updater passed to \<open>setSignals\<close>:
  \<^verbatim>\<open>prev => { const updated = [...prev];
            const index = updated.findIndex(s => s.id === signalData.id);
            if (index >= 0) { updated[index] = signalData; } else { updated.push(signalData); }
            return updated; }\<close>
\<close>

definition setSignals_updater :: "TradingSignal \<Rightarrow> TradingSignal list \<Rightarrow> TradingSignal list" where
  "setSignals_updater signalData prev =
     (let updated = prev;
          index = findIndex (\<lambda>s. signal_id s = signal_id signalData) updated
      in if index \<ge> 0 then updated[nat index := signalData] else updated @ [signalData])"

text \<open>
  \<open>handleMessage\<close>. React applies the queued updaters of one state cell in the order
  of the \<open>setSignals\<close> calls, so the state after a call is the updater applied to the
  state before it. \<open>Inl\<close> is the exception the call raises. The \<open>console.log\<close>
  lines of the handler change no state and are left out.
\<close>

fun handleMessage :: "panel \<Rightarrow> message \<Rightarrow> exn + panel" where
  "handleMessage st (SignalUpdate signalData) =
     Inr (st\<lparr>signals := setSignals_updater signalData (signals st)\<rparr>)"
| "handleMessage st (MetricsUpdate metricsData) =
     Inr (st\<lparr>metrics := Some metricsData\<rparr>)"
| "handleMessage st (OtherType t) = Inr st"
| "handleMessage st JsonNull = Inl TypeError"

text \<open>
  A sequence of messages handed to \<open>handleMessage\<close> one after the other. A call that
  raises leaves the state as it was (the caller, \<open>onmessage\<close> below, catches).
\<close>

fun handleMessages :: "panel \<Rightarrow> message list \<Rightarrow> panel" where
  "handleMessages st [] = st"
| "handleMessages st (m # ms) =
     handleMessages (case handleMessage st m of Inl e \<Rightarrow> st | Inr st' \<Rightarrow> st') ms"

text \<open>
  The fixtures of the panel's test suite (\<open>mockSignal1\<close>, \<open>mockSignal2\<close>,
  \<open>mockMetrics\<close>), and a second signal with another id.
\<close>

definition mockSignal1 :: TradingSignal where
  "mockSignal1 =
     \<lparr>signal_id = 1, symbol = ''BTC/USDT'', signal_type = long, entry_price = 45000,
      current_price = 46000, target_price = 47000, stop_loss = 44000, accuracy = 89,
      confidence = 95, created_at = ''2024-01-17T12:00:00Z'', market_phase = ''accumulation'',
      validation_count = 5, leverage = None, margin_type = None, position_size = None,
      trading_fee = None, entry_fee = None, exit_fee = None, total_fee = None,
      expected_profit = None, liquidation_price = None, funding_rate = None,
      last_price = None\<rparr>"

definition mockSignal2 :: TradingSignal where
  "mockSignal2 = mockSignal1\<lparr>current_price := 47000, accuracy := 91, validation_count := 6\<rparr>"

definition ethSignal :: TradingSignal where
  "ethSignal = mockSignal1\<lparr>signal_id := 2, symbol := ''ETH/USDT'', leverage := Some 10\<rparr>"

definition mockMetrics :: SystemMetrics where
  "mockMetrics =
     \<lparr>overall_accuracy = 87, total_signals = 100, successful_predictions = 87,
      average_confidence = 92, market_sentiment = bullish\<rparr>"

section \<open>Connection manager (services/websocket.ts)\<close>

subsection \<open>The host: sockets, timers, console, arrays\<close>

text \<open>
  A \<open>WebSocket\<close> object of the host: its \<open>readyState\<close>, and whether
  \<open>setupEventHandlers\<close> has assigned its four callbacks. The service names a socket
  by its index in the list of the sockets it has constructed.
\<close>

datatype readyState = CONNECTING | OPEN | CLOSING | CLOSED

record socket =
  readyState :: readyState
  handlers_set :: bool

text \<open>A registered callback, by reference identity (\<open>h !== handler\<close>).\<close>

type_synonym handler = nat

text \<open>What the service does to the host, and the handler calls it makes, in order.\<close>

datatype effect =
    NewWebSocket nat
  | Close nat
  | SetTimeout nat
  | TimerCallback
  | ConsoleLog string
  | ConsoleError string
  | Invoked handler message

text \<open>
  The fields of \<open>class WebSocketService\<close> (\<open>ws\<close>, \<open>reconnectAttempts\<close>,
  \<open>messageHandlers\<close>; \<open>url\<close> is only passed to the constructor of the socket,
  and \<open>url_ok\<close> says whether \<open>new WebSocket(this.url)\<close> returns rather than
  throws), and the part of the host they refer to:
  \<^item> \<open>arrays\<close> is the store of handler arrays and \<open>messageHandlers\<close> the
    address of the current one: \<open>push\<close> changes the array in place,
    \<open>filter\<close> allocates a new one, and a running \<open>forEach\<close> keeps the address
    it started with;
  \<^item> \<open>sockets\<close> are the sockets constructed so far, \<open>ws\<close> the index of the
    one the field refers to;
  \<^item> \<open>timers\<close> are the delays of the pending \<open>setTimeout\<close> callbacks, each
    of which is \<open>() => this.connect()\<close>;
  \<^item> \<open>app\<close> is the state the handlers close over.
\<close>

record 'w service =
  url_ok :: bool
  ws :: "nat option"
  reconnectAttempts :: nat
  messageHandlers :: nat
  arrays :: "handler list list"
  sockets :: "socket list"
  timers :: "nat list"
  trace :: "effect list"
  app :: 'w

definition maxReconnectAttempts :: nat where
  "maxReconnectAttempts = 5"

definition new_WebSocketService :: "bool \<Rightarrow> 'w \<Rightarrow> 'w service" where
  "new_WebSocketService ok w =
     \<lparr>url_ok = ok, ws = None, reconnectAttempts = 0, messageHandlers = 0, arrays = [[]],
      sockets = [], timers = [], trace = [], app = w\<rparr>"

definition registered :: "'w service \<Rightarrow> handler list" where
  "registered s = arrays s ! messageHandlers s"

definition console_log :: "string \<Rightarrow> 'w service \<Rightarrow> 'w service" where
  "console_log msg s = s\<lparr>trace := trace s @ [ConsoleLog msg]\<rparr>"

definition console_error :: "string \<Rightarrow> 'w service \<Rightarrow> 'w service" where
  "console_error msg s = s\<lparr>trace := trace s @ [ConsoleError msg]\<rparr>"

definition setTimeout :: "nat \<Rightarrow> 'w service \<Rightarrow> 'w service" where
  "setTimeout delay s = s\<lparr>timers := timers s @ [delay], trace := trace s @ [SetTimeout delay]\<rparr>"

text \<open>
  \<open>WebSocket.close()\<close>: a socket that is connecting or open starts closing (its
  \<open>close\<close> event comes later); on a closing or closed socket the call does nothing.
\<close>

definition socket_close :: "nat \<Rightarrow> 'w service \<Rightarrow> 'w service" where
  "socket_close k s =
     (let s1 = s\<lparr>trace := trace s @ [Close k]\<rparr>
      in if k < length (sockets s) \<and> readyState (sockets s ! k) \<in> {CONNECTING, OPEN}
         then s1\<lparr>sockets := (sockets s)[k := (sockets s ! k)\<lparr>readyState := CLOSING\<rparr>]\<rparr>
         else s1)"

subsection \<open>The methods of the service\<close>

text \<open>
  \<^verbatim>\<open>if (this.reconnectAttempts < this.maxReconnectAttempts) {
    this.reconnectAttempts++;
    setTimeout(() => this.connect(), 1000 * Math.pow(2, this.reconnectAttempts)); }\<close>
\<close>

definition handleReconnect :: "'w service \<Rightarrow> 'w service" where
  "handleReconnect s =
     (if reconnectAttempts s < maxReconnectAttempts
      then let s1 = s\<lparr>reconnectAttempts := reconnectAttempts s + 1\<rparr>
           in setTimeout (1000 * 2 ^ reconnectAttempts s1) s1
      else s)"

definition setupEventHandlers :: "'w service \<Rightarrow> 'w service" where
  "setupEventHandlers s =
     (case ws s of
        None \<Rightarrow> s
      | Some k \<Rightarrow> s\<lparr>sockets := (sockets s)[k := (sockets s ! k)\<lparr>handlers_set := True\<rparr>]\<rparr>)"

text \<open>
  \<^verbatim>\<open>try { this.ws = new WebSocket(this.url); this.setupEventHandlers(); }
  catch (error) { console.error(...); this.handleReconnect(); }\<close>
  When the constructor throws, \<open>this.ws\<close> keeps its value.
\<close>

definition connect :: "'w service \<Rightarrow> 'w service" where
  "connect s =
     (if url_ok s
      then setupEventHandlers
             (s\<lparr>ws := Some (length (sockets s)),
                sockets := sockets s @ [\<lparr>readyState = CONNECTING, handlers_set = False\<rparr>],
                trace := trace s @ [NewWebSocket (length (sockets s))]\<rparr>)
      else handleReconnect (console_error ''WebSocket connection error:'' s))"

definition addMessageHandler :: "handler \<Rightarrow> 'w service \<Rightarrow> 'w service" where
  "addMessageHandler h s =
     s\<lparr>arrays := (arrays s)[messageHandlers s := arrays s ! messageHandlers s @ [h]]\<rparr>"

definition removeMessageHandler :: "handler \<Rightarrow> 'w service \<Rightarrow> 'w service" where
  "removeMessageHandler h s =
     s\<lparr>arrays := arrays s @ [filter (\<lambda>h'. h' \<noteq> h) (arrays s ! messageHandlers s)],
       messageHandlers := length (arrays s)\<rparr>"

definition disconnect :: "'w service \<Rightarrow> 'w service" where
  "disconnect s =
     (case ws s of
        None \<Rightarrow> s
      | Some k \<Rightarrow> (socket_close k s)\<lparr>ws := None\<rparr>)"

subsection \<open>Handlers\<close>

text \<open>
  A handler is code of the application. The public methods of the service return
  nothing and do not throw, so what a handler does with a message is: change the state
  it closes over, call public methods of the service in some order, and return or throw.
\<close>

datatype call =
    Call_connect
  | Call_disconnect
  | Call_addMessageHandler handler
  | Call_removeMessageHandler handler

type_synonym 'w behaviour = "handler \<Rightarrow> message \<Rightarrow> 'w \<Rightarrow> 'w \<times> call list \<times> exn option"

fun do_call :: "call \<Rightarrow> 'w service \<Rightarrow> 'w service" where
  "do_call Call_connect s = connect s"
| "do_call Call_disconnect s = disconnect s"
| "do_call (Call_addMessageHandler h) s = addMessageHandler h s"
| "do_call (Call_removeMessageHandler h) s = removeMessageHandler h s"

definition call_handler ::
  "'w behaviour \<Rightarrow> handler \<Rightarrow> message \<Rightarrow> 'w service \<Rightarrow> 'w service \<times> exn option" where
  "call_handler beh h m s =
     (case beh h m (app s) of
        (w', cs, r) \<Rightarrow>
          (foldl (\<lambda>s c. do_call c s) (s\<lparr>app := w', trace := trace s @ [Invoked h m]\<rparr>) cs, r))"

text \<open>
  \<open>Array.prototype.forEach\<close> on the array at address \<open>a\<close>: the length is read once,
  before the first call; index \<open>k\<close> is read from the array as it is when its turn
  comes; an exception of the callback ends the loop and propagates. \<open>n\<close> is the number
  of indices still to visit.
\<close>

fun forEach_from ::
  "'w behaviour \<Rightarrow> message \<Rightarrow> nat \<Rightarrow> nat \<Rightarrow> nat \<Rightarrow> 'w service \<Rightarrow> 'w service \<times> exn option" where
  "forEach_from beh m a k 0 s = (s, None)"
| "forEach_from beh m a k (Suc n) s =
     (if k < length (arrays s ! a)
      then (case call_handler beh (arrays s ! a ! k) m s of
              (s', Some e) \<Rightarrow> (s', Some e)
            | (s', None) \<Rightarrow> forEach_from beh m a (k + 1) n s')
      else forEach_from beh m a (k + 1) n s)"

definition forEach :: "'w behaviour \<Rightarrow> message \<Rightarrow> 'w service \<Rightarrow> 'w service \<times> exn option" where
  "forEach beh m s =
     forEach_from beh m (messageHandlers s) 0 (length (arrays s ! messageHandlers s)) s"

subsection \<open>The four callbacks of a socket\<close>

definition onopen :: "'w service \<Rightarrow> 'w service" where
  "onopen s = (console_log ''WebSocket connected'' s)\<lparr>reconnectAttempts := 0\<rparr>"

text \<open>
  The \<open>try\<close> block of \<open>onmessage\<close>, then the callback with its \<open>catch\<close>.
  \<open>JSON_parse\<close> is the host's decoder: \<open>Inl\<close> when it throws. The second
  component of the result is the exception the code raises to its caller, if any.
\<close>

definition onmessage_try ::
  "(string \<Rightarrow> exn + message) \<Rightarrow> 'w behaviour \<Rightarrow> string \<Rightarrow> 'w service \<Rightarrow> 'w service \<times> exn option" where
  "onmessage_try JSON_parse beh data s =
     (case JSON_parse data of
        Inl e \<Rightarrow> (s, Some e)
      | Inr message \<Rightarrow> forEach beh message s)"

definition onmessage ::
  "(string \<Rightarrow> exn + message) \<Rightarrow> 'w behaviour \<Rightarrow> string \<Rightarrow> 'w service \<Rightarrow> 'w service \<times> exn option" where
  "onmessage JSON_parse beh data s =
     (case onmessage_try JSON_parse beh data s of
        (s', None) \<Rightarrow> (s', None)
      | (s', Some e) \<Rightarrow> (console_error ''Error parsing WebSocket message:'' s', None))"

definition onclose :: "'w service \<Rightarrow> 'w service" where
  "onclose s = handleReconnect (console_log ''WebSocket disconnected'' s)"

definition onerror :: "'w service \<Rightarrow> 'w service" where
  "onerror s = console_error ''WebSocket error:'' s"

subsection \<open>Runs\<close>

text \<open>
  What can happen to a service: the application calls a public method, the host fires an
  event of a socket, or a pending timer runs. The host fires \<open>open\<close> on a connecting
  socket, \<open>message\<close> on an open one, \<open>close\<close> once on a socket that is not yet
  closed (the connection failed, was lost, or finished closing), and runs a pending
  timer once; any other event does not happen, and is a step that changes nothing.
\<close>

datatype event =
    Connect
  | Disconnect
  | AddMessageHandler handler
  | RemoveMessageHandler handler
  | SocketOpen nat
  | SocketMessage nat string
  | SocketError nat
  | SocketClose nat
  | TimerFires nat

definition set_readyState :: "nat \<Rightarrow> readyState \<Rightarrow> 'w service \<Rightarrow> 'w service" where
  "set_readyState k r s = s\<lparr>sockets := (sockets s)[k := (sockets s ! k)\<lparr>readyState := r\<rparr>]\<rparr>"

fun step ::
  "(string \<Rightarrow> exn + message) \<Rightarrow> 'w behaviour \<Rightarrow> event \<Rightarrow> 'w service \<Rightarrow> 'w service" where
  "step JSON_parse beh Connect s = connect s"
| "step JSON_parse beh Disconnect s = disconnect s"
| "step JSON_parse beh (AddMessageHandler h) s = addMessageHandler h s"
| "step JSON_parse beh (RemoveMessageHandler h) s = removeMessageHandler h s"
| "step JSON_parse beh (SocketOpen k) s =
     (if k < length (sockets s) \<and> readyState (sockets s ! k) = CONNECTING
      then (if handlers_set (sockets s ! k) then onopen (set_readyState k OPEN s)
            else set_readyState k OPEN s)
      else s)"
| "step JSON_parse beh (SocketMessage k data) s =
     (if k < length (sockets s) \<and> readyState (sockets s ! k) = OPEN \<and> handlers_set (sockets s ! k)
      then fst (onmessage JSON_parse beh data s)
      else s)"
| "step JSON_parse beh (SocketError k) s =
     (if k < length (sockets s) \<and> readyState (sockets s ! k) \<noteq> CLOSED \<and> handlers_set (sockets s ! k)
      then onerror s
      else s)"
| "step JSON_parse beh (SocketClose k) s =
     (if k < length (sockets s) \<and> readyState (sockets s ! k) \<noteq> CLOSED
      then (if handlers_set (sockets s ! k) then onclose (set_readyState k CLOSED s)
            else set_readyState k CLOSED s)
      else s)"
| "step JSON_parse beh (TimerFires i) s =
     (if i < length (timers s)
      then connect (s\<lparr>timers := take i (timers s) @ drop (Suc i) (timers s),
                      trace := trace s @ [TimerCallback]\<rparr>)
      else s)"

fun run ::
  "(string \<Rightarrow> exn + message) \<Rightarrow> 'w behaviour \<Rightarrow> event list \<Rightarrow> 'w service \<Rightarrow> 'w service" where
  "run JSON_parse beh [] s = s"
| "run JSON_parse beh (e # es) s = run JSON_parse beh es (step JSON_parse beh e s)"

subsection \<open>Observations on a trace\<close>

fun invoked :: "effect list \<Rightarrow> (handler \<times> message) list" where
  "invoked [] = []"
| "invoked (Invoked h m # t) = (h, m) # invoked t"
| "invoked (e # t) = invoked t"

fun timeouts :: "effect list \<Rightarrow> nat list" where
  "timeouts [] = []"
| "timeouts (SetTimeout d # t) = d # timeouts t"
| "timeouts (e # t) = timeouts t"

fun reconnections :: "effect list \<Rightarrow> nat" where
  "reconnections [] = 0"
| "reconnections (TimerCallback # t) = Suc (reconnections t)"
| "reconnections (e # t) = reconnections t"

text \<open>The sockets whose connection is live: connecting or open.\<close>

definition live :: "'w service \<Rightarrow> nat list" where
  "live s = filter (\<lambda>k. readyState (sockets s ! k) \<in> {CONNECTING, OPEN}) [0 ..< length (sockets s)]"

subsection \<open>Delivery over a fixed list of handlers\<close>

text \<open>
  The delivery the specification asks for, over a stable snapshot \<open>hs\<close> of the
  registry: each handler in turn, until one throws. It does not look at the registry
  of the service at all. The result is the list of the handlers called and the
  exception that ended the delivery, if any.
\<close>

fun snapshot_delivery ::
  "'w behaviour \<Rightarrow> message \<Rightarrow> handler list \<Rightarrow> 'w \<Rightarrow> handler list \<times> exn option" where
  "snapshot_delivery beh m [] w = ([], None)"
| "snapshot_delivery beh m (h # hs) w =
     (case beh h m w of
        (w', cs, Some e) \<Rightarrow> ([h], Some e)
      | (w', cs, None) \<Rightarrow>
          (case snapshot_delivery beh m hs w' of (called, r) \<Rightarrow> (h # called, r)))"

subsection \<open>Fixtures\<close>

text \<open>
  The one handler of the application, \<open>handleMessage\<close> of the panel, as a behaviour:
  it calls no method of the service, and throws on the document \<open>null\<close>.
\<close>

definition panel_behaviour :: "panel behaviour" where
  "panel_behaviour h m w =
     (case handleMessage w m of
        Inl e \<Rightarrow> (w, [], Some e)
      | Inr w' \<Rightarrow> (w', [], None))"

text \<open>
  Three handlers over an application state that counts the calls: handler 1 removes
  itself from the registry when it is called (a one-shot listener), handler 2 throws on
  the document \<open>null\<close>, every other handler only counts.
\<close>

definition counting_behaviour :: "nat behaviour" where
  "counting_behaviour h m w =
     (if h = 1 then (w + 1, [Call_removeMessageHandler 1], None)
      else if h = 2 \<and> m = JsonNull then (w + 1, [], Some TypeError)
      else (w + 1, [], None))"

text \<open>
  A decoder for fixtures: it agrees with \<open>JSON.parse\<close> on the three texts used
  below (\<open>null\<close>, the empty object, and a text that is not JSON).
\<close>

definition decode_fixture :: "string \<Rightarrow> exn + message" where
  "decode_fixture data =
     (if data = ''null'' then Inr JsonNull
      else if data = ''{}'' then Inr (OtherType [])
      else Inl SyntaxError)"

subsection \<open>Measures of a run\<close>








subsection \<open>Invariants of a delivery\<close>

text \<open>
  While \<open>forEach\<close> runs over the array at address \<open>a\<close>, which held \<open>xs\<close> when it
  started: the address stays allocated, the array still begins with \<open>xs\<close> (a
  \<open>push\<close> only appends), and the current array of the service is allocated.
\<close>

definition keeps :: "nat \<Rightarrow> handler list \<Rightarrow> 'w service \<Rightarrow> bool" where
  "keeps a xs s \<longleftrightarrow>
     a < length (arrays s) \<and> prefix xs (arrays s ! a) \<and> messageHandlers s < length (arrays s)"

text \<open>The same handlers, with every call they make to the service erased.\<close>

definition without_calls :: "'w behaviour \<Rightarrow> 'w behaviour" where
  "without_calls beh = (\<lambda>h m w. case beh h m w of (w', cs, r) \<Rightarrow> (w', [], r))"


text \<open>A connected service with the three counting handlers registered in order.\<close>

definition listening_service :: "nat service" where
  "listening_service =
     run decode_fixture counting_behaviour
       [AddMessageHandler 1, AddMessageHandler 2, AddMessageHandler 3, Connect, SocketOpen 0]
       (new_WebSocketService True 0)"

subsection \<open>What a delivery does at the states it meets\<close>






section \<open>The reducer: upsert by id\<close>

lemma findIndex_from_char:
  "findIndex_from P xs k =
     (if \<exists>x\<in>set xs. P x then k + int (length (takeWhile (\<lambda>x. \<not> P x) xs)) else - 1)"
  by (induction xs arbitrary: k) (auto simp: algebra_simps)

lemma setSignals_updater_Nil: "setSignals_updater p [] = [p]"
  by (simp add: setSignals_updater_def findIndex_def)

lemma setSignals_updater_Cons:
  "setSignals_updater p (x # xs) =
     (if signal_id x = signal_id p then p # xs else x # setSignals_updater p xs)"
  by (simp add: setSignals_updater_def findIndex_def findIndex_from_char Let_def nat_add_distrib)

lemma ids_setSignals_updater:
  "map signal_id (setSignals_updater p xs) =
     (if signal_id p \<in> signal_id ` set xs then map signal_id xs
      else map signal_id xs @ [signal_id p])"
  by (induction xs) (auto simp: setSignals_updater_Nil setSignals_updater_Cons)

lemma find_setSignals_updater:
  "find (\<lambda>s. signal_id s = i) (setSignals_updater p xs) =
     (if signal_id p = i then Some p else find (\<lambda>s. signal_id s = i) xs)"
  by (induction xs) (auto simp: setSignals_updater_Nil setSignals_updater_Cons)

lemma setSignals_updater_absent:
  "signal_id p \<notin> signal_id ` set xs \<Longrightarrow> setSignals_updater p xs = xs @ [p]"
  by (induction xs) (auto simp: setSignals_updater_Nil setSignals_updater_Cons)

lemma setSignals_updater_present:
  "signal_id p \<in> signal_id ` set xs \<Longrightarrow>
     \<exists>k < length xs. signal_id (xs ! k) = signal_id p \<and>
        (\<forall>j < k. signal_id (xs ! j) \<noteq> signal_id p) \<and>
        setSignals_updater p xs = xs[k := p]"
proof (induction xs)
  case Nil
  then show ?case by simp
next
  case (Cons x xs)
  show ?case
  proof (cases "signal_id x = signal_id p")
    case True
    then have "0 < length (x # xs) \<and> signal_id ((x # xs) ! 0) = signal_id p \<and>
        (\<forall>j < 0. signal_id ((x # xs) ! j) \<noteq> signal_id p) \<and>
        setSignals_updater p (x # xs) = (x # xs)[0 := p]"
      by (simp add: setSignals_updater_Cons)
    then show ?thesis by blast
  next
    case False
    with Cons.prems have "signal_id p \<in> signal_id ` set xs" by auto
    from Cons.IH [OF this] obtain k where k: "k < length xs" "signal_id (xs ! k) = signal_id p"
      "\<forall>j < k. signal_id (xs ! j) \<noteq> signal_id p" "setSignals_updater p xs = xs[k := p]"
      by blast
    have "\<forall>j < Suc k. signal_id ((x # xs) ! j) \<noteq> signal_id p"
      using False k(3) by (auto simp: less_Suc_eq_0_disj)
    with k False have "Suc k < length (x # xs) \<and> signal_id ((x # xs) ! Suc k) = signal_id p \<and>
        (\<forall>j < Suc k. signal_id ((x # xs) ! j) \<noteq> signal_id p) \<and>
        setSignals_updater p (x # xs) = (x # xs)[Suc k := p]"
      by (simp add: setSignals_updater_Cons)
    then show ?thesis by blast
  qed
qed

lemma handleMessages_signal_updates:
  "handleMessages st (map SignalUpdate ps) =
     st\<lparr>signals := foldl (\<lambda>xs p. setSignals_updater p xs) (signals st) ps\<rparr>"
  by (induction ps arbitrary: st) auto

lemma upserts_ids:
  "map signal_id (foldl (\<lambda>xs p. setSignals_updater p xs) [] ps) =
     rev (remdups (rev (map signal_id ps)))"
proof (induction ps rule: rev_induct)
  case Nil
  then show ?case by simp
next
  case (snoc p ps)
  have "set (rev (remdups (rev (map signal_id ps)))) = signal_id ` set ps" by simp
  with snoc have s:
    "signal_id ` set (foldl (\<lambda>xs p. setSignals_updater p xs) [] ps) = signal_id ` set ps"
    by (metis set_map)
  show ?case using snoc by (simp add: ids_setSignals_updater s)
qed

lemma upserts_find:
  "find (\<lambda>s. signal_id s = i) (foldl (\<lambda>xs p. setSignals_updater p xs) [] ps) =
   find (\<lambda>s. signal_id s = i) (rev ps)"
  by (induction ps rule: rev_induct) (auto simp: find_setSignals_updater)

lemma upserts_length:
  "length (foldl (\<lambda>xs p. setSignals_updater p xs) [] ps) = card (signal_id ` set ps)"
proof -
  have "length (foldl (\<lambda>xs p. setSignals_updater p xs) [] ps)
      = length (map signal_id (foldl (\<lambda>xs p. setSignals_updater p xs) [] ps))" by simp
  also have "\<dots> = card (set (map signal_id ps))"
    unfolding upserts_ids by (simp add: length_remdups_card_conv)
  finally show ?thesis by simp
qed

lemma mock_ids:
  "signal_id mockSignal1 = 1" "signal_id mockSignal2 = 1" "signal_id ethSignal = 2"
  by (simp_all add: mockSignal1_def mockSignal2_def ethSignal_def)

text \<open>
  C1. Starting from the empty signal list, after any sequence \<open>ps\<close> of
  \<open>signal_update\<close> payloads has gone through \<open>handleMessage\<close>: the entry stored for
  an id \<open>i\<close> (the only one, the stored ids being distinct) is the payload of the last
  message of the sequence with that id (and there is none when no message had it), and
  the list has as many entries as the sequence has distinct ids.
\<close>

theorem C1_last_payload_per_id:
  "(\<forall>i. find (\<lambda>s. signal_id s = i) (signals (handleMessages (st\<lparr>signals := []\<rparr>) (map SignalUpdate ps)))
        = find (\<lambda>p. signal_id p = i) (rev ps)) \<and>
   distinct (map signal_id (signals (handleMessages (st\<lparr>signals := []\<rparr>) (map SignalUpdate ps)))) \<and>
   length (signals (handleMessages (st\<lparr>signals := []\<rparr>) (map SignalUpdate ps)))
     = card (signal_id ` set ps)"
  by (simp add: handleMessages_signal_updates upserts_find upserts_length upserts_ids)

theorem C1_last_payload_per_id_witness:
  "find (\<lambda>s. signal_id s = 1)
     (signals (handleMessages initial_panel
        (map SignalUpdate [mockSignal1, ethSignal, mockSignal2]))) = Some mockSignal2 \<and>
   length (signals (handleMessages initial_panel
        (map SignalUpdate [mockSignal1, ethSignal, mockSignal2]))) = 2"
proof -
  have i: "initial_panel\<lparr>signals := []\<rparr> = initial_panel"
    by (simp add: initial_panel_def)
  have c: "card (signal_id ` set [mockSignal1, ethSignal, mockSignal2]) = 2"
    by (simp add: mock_ids card_insert_if)
  show ?thesis
    using C1_last_payload_per_id [of initial_panel "[mockSignal1, ethSignal, mockSignal2]"]
    unfolding i c by (simp add: mock_ids)
qed

text \<open>
  C7. A \<open>metrics_update\<close> message makes the metrics snapshot the message's payload,
  whatever the snapshot was before (none, or any other payload); nothing of the earlier
  snapshot is kept, and the signal list is untouched.
\<close>

theorem C7_metrics_replaced:
  "handleMessage st (MetricsUpdate m) = Inr (st\<lparr>metrics := Some m\<rparr>) \<and>
   (\<exists>st'. handleMessage st (MetricsUpdate m) = Inr st' \<and>
          metrics st' = Some m \<and> signals st' = signals st)"
  by simp

theorem C7_metrics_replaced_witness:
  "handleMessage initial_panel (MetricsUpdate mockMetrics)
     = Inr \<lparr>signals = [], metrics = Some mockMetrics\<rparr> \<and>
   handleMessage \<lparr>signals = [], metrics = Some mockMetrics\<rparr>
       (MetricsUpdate (mockMetrics\<lparr>market_sentiment := bearish\<rparr>))
     = Inr \<lparr>signals = [], metrics = Some (mockMetrics\<lparr>market_sentiment := bearish\<rparr>)\<rparr>"
  using C7_metrics_replaced [of initial_panel mockMetrics]
    C7_metrics_replaced [of "\<lparr>signals = [], metrics = Some mockMetrics\<rparr>"
      "mockMetrics\<lparr>market_sentiment := bearish\<rparr>"]
  by (simp add: initial_panel_def)

text \<open>
  C8. A payload whose id no entry has is appended at the end of the list. A payload
  whose id an entry has replaces the first such entry at its index \<open>k\<close>, and the list
  is otherwise the same (same length, every other index unchanged). So, from the empty
  list, the ids of the list are the ids of the messages in the order of their first
  appearance.
\<close>

theorem C8_positions_preserved:
  "(signal_id p \<notin> signal_id ` set (signals st) \<longrightarrow>
      handleMessage st (SignalUpdate p) = Inr (st\<lparr>signals := signals st @ [p]\<rparr>)) \<and>
   (signal_id p \<in> signal_id ` set (signals st) \<longrightarrow>
      (\<exists>k < length (signals st).
          signal_id (signals st ! k) = signal_id p \<and>
          (\<forall>j < k. signal_id (signals st ! j) \<noteq> signal_id p) \<and>
          handleMessage st (SignalUpdate p) = Inr (st\<lparr>signals := (signals st)[k := p]\<rparr>))) \<and>
   map signal_id (signals (handleMessages (st\<lparr>signals := []\<rparr>) (map SignalUpdate ps)))
     = rev (remdups (rev (map signal_id ps)))"
proof (intro conjI impI)
  assume "signal_id p \<notin> signal_id ` set (signals st)"
  then show "handleMessage st (SignalUpdate p) = Inr (st\<lparr>signals := signals st @ [p]\<rparr>)"
    by (simp add: setSignals_updater_absent)
next
  assume "signal_id p \<in> signal_id ` set (signals st)"
  from setSignals_updater_present [OF this]
  show "\<exists>k < length (signals st).
          signal_id (signals st ! k) = signal_id p \<and>
          (\<forall>j < k. signal_id (signals st ! j) \<noteq> signal_id p) \<and>
          handleMessage st (SignalUpdate p) = Inr (st\<lparr>signals := (signals st)[k := p]\<rparr>)"
    by auto
next
  show "map signal_id (signals (handleMessages (st\<lparr>signals := []\<rparr>) (map SignalUpdate ps)))
     = rev (remdups (rev (map signal_id ps)))"
    by (simp add: handleMessages_signal_updates upserts_ids)
qed

theorem C8_positions_preserved_witness:
  "handleMessage \<lparr>signals = [mockSignal1], metrics = None\<rparr> (SignalUpdate ethSignal)
     = Inr \<lparr>signals = [mockSignal1, ethSignal], metrics = None\<rparr> \<and>
   handleMessage \<lparr>signals = [mockSignal1, ethSignal], metrics = None\<rparr> (SignalUpdate mockSignal2)
     = Inr \<lparr>signals = [mockSignal2, ethSignal], metrics = None\<rparr> \<and>
   map signal_id (signals (handleMessages initial_panel
       (map SignalUpdate [ethSignal, mockSignal1, ethSignal, mockSignal2]))) = [2, 1]"
proof -
  have i: "initial_panel\<lparr>signals := []\<rparr> = initial_panel"
    by (simp add: initial_panel_def)
  have a: "handleMessage \<lparr>signals = [mockSignal1], metrics = None\<rparr> (SignalUpdate ethSignal)
     = Inr \<lparr>signals = [mockSignal1, ethSignal], metrics = None\<rparr>"
    using C8_positions_preserved [of ethSignal "\<lparr>signals = [mockSignal1], metrics = None\<rparr>" "[]"]
    by (simp add: mock_ids)
  have b: "handleMessage \<lparr>signals = [mockSignal1, ethSignal], metrics = None\<rparr> (SignalUpdate mockSignal2)
     = Inr \<lparr>signals = [mockSignal2, ethSignal], metrics = None\<rparr>"
    using C8_positions_preserved
      [of mockSignal2 "\<lparr>signals = [mockSignal1, ethSignal], metrics = None\<rparr>" "[]"]
    by (auto simp: mock_ids less_Suc_eq_0_disj)
  have c: "map signal_id (signals (handleMessages initial_panel
       (map SignalUpdate [ethSignal, mockSignal1, ethSignal, mockSignal2]))) = [2, 1]"
    using C8_positions_preserved
      [of ethSignal initial_panel "[ethSignal, mockSignal1, ethSignal, mockSignal2]"]
    unfolding i by (simp add: mock_ids)
  from a b c show ?thesis by blast
qed

section \<open>Reconnection\<close>

lemmas service_defs =
  new_WebSocketService_def connect_def setupEventHandlers_def disconnect_def socket_close_def
  onopen_def onclose_def onerror_def handleReconnect_def set_readyState_def console_log_def
  console_error_def setTimeout_def maxReconnectAttempts_def addMessageHandler_def
  removeMessageHandler_def

lemma invoked_append: "invoked (t @ u) = invoked t @ invoked u"
  by (induction t rule: invoked.induct) auto

lemma timeouts_append: "timeouts (t @ u) = timeouts t @ timeouts u"
  by (induction t rule: timeouts.induct) auto


text \<open>
  C5, as stated, fails: the counter is incremented before the delay is computed, so the
  first reconnection after the close of a connection that had opened (no attempt made
  yet) is scheduled after 2000 ms, not after \<open>1000 * 2 ^ 0\<close> ms.
\<close>

theorem C5_delay_counterexample:
  "reconnectAttempts (run decode_fixture panel_behaviour [Connect, SocketOpen 0]
      (new_WebSocketService True initial_panel)) = 0 \<and>
   timers (run decode_fixture panel_behaviour [Connect, SocketOpen 0, SocketClose 0]
      (new_WebSocketService True initial_panel)) = [2000] \<and>
   (2000 :: nat) \<noteq> 1000 * 2 ^ 0"
  by (simp add: service_defs)

text \<open>
  C5, amended. On a close with the counter at \<open>n\<close>, below the cap, the counter becomes
  \<open>n + 1\<close> and one reconnection is scheduled, after \<open>1000 * 2 ^ (n + 1)\<close> ms: the
  exponent is the number of attempts including the one being scheduled. An open resets
  the counter to zero and schedules nothing.
\<close>

theorem C5_delay_after_increment:
  "(reconnectAttempts s < maxReconnectAttempts \<longrightarrow>
      reconnectAttempts (onclose s) = reconnectAttempts s + 1 \<and>
      timers (onclose s) = timers s @ [1000 * 2 ^ (reconnectAttempts s + 1)] \<and>
      timeouts (trace (onclose s)) = timeouts (trace s) @ [1000 * 2 ^ (reconnectAttempts s + 1)]) \<and>
   reconnectAttempts (onopen s) = 0 \<and> timers (onopen s) = timers s"
  by (simp add: service_defs timeouts_append Let_def)

theorem C5_delay_after_increment_witness:
  "timeouts (trace (run decode_fixture panel_behaviour
      [Connect, SocketOpen 0, SocketClose 0, TimerFires 0, SocketClose 1]
      (new_WebSocketService True initial_panel))) = [2000, 4000]"
proof -
  let ?s1 = "run decode_fixture panel_behaviour [Connect, SocketOpen 0]
      (new_WebSocketService True initial_panel)"
  show ?thesis
  using C5_delay_after_increment [of "set_readyState 0 CLOSED ?s1"]
  by (simp add: service_defs)
qed

section \<open>connect and disconnect\<close>

text \<open>
  C3, as stated, fails: \<open>connect()\<close> on a service whose connection is open is not a
  no-op. It constructs a second socket, and once that one opens too the service has two
  live connections.
\<close>

theorem C3_connect_counterexample:
  "live (run decode_fixture panel_behaviour [Connect, SocketOpen 0]
      (new_WebSocketService True initial_panel)) = [0] \<and>
   live (run decode_fixture panel_behaviour [Connect, SocketOpen 0, Connect, SocketOpen 1]
      (new_WebSocketService True initial_panel)) = [0, 1] \<and>
   step decode_fixture panel_behaviour Connect
     (run decode_fixture panel_behaviour [Connect, SocketOpen 0]
        (new_WebSocketService True initial_panel))
   \<noteq> run decode_fixture panel_behaviour [Connect, SocketOpen 0]
        (new_WebSocketService True initial_panel)"
  by (simp add: service_defs live_def upt_rec)

text \<open>
  C3, amended. Whenever the socket constructor returns, \<open>connect()\<close> constructs one
  more socket, sets its callbacks and makes \<open>ws\<close> refer to it, whatever the state
  was: the sockets constructed earlier are left as they are, neither closed nor
  detached. Only the reference \<open>ws\<close> is single.
\<close>

theorem C3_connect_always_opens:
  "url_ok s \<longrightarrow>
     connect s = s\<lparr>ws := Some (length (sockets s)),
                   sockets := sockets s @ [\<lparr>readyState = CONNECTING, handlers_set = True\<rparr>],
                   trace := trace s @ [NewWebSocket (length (sockets s))]\<rparr>"
  by (simp add: service_defs)

theorem C3_connect_always_opens_witness:
  "sockets (connect (connect (new_WebSocketService True initial_panel))) =
     [\<lparr>readyState = CONNECTING, handlers_set = True\<rparr>,
      \<lparr>readyState = CONNECTING, handlers_set = True\<rparr>] \<and>
   ws (connect (connect (new_WebSocketService True initial_panel))) = Some 1"
proof -
  have u: "url_ok (connect (new_WebSocketService True initial_panel))"
    by (simp add: service_defs)
  have c: "connect (new_WebSocketService True initial_panel) =
      (new_WebSocketService True initial_panel)\<lparr>ws := Some 0,
         sockets := [\<lparr>readyState = CONNECTING, handlers_set = True\<rparr>],
         trace := [NewWebSocket 0]\<rparr>"
    by (simp add: service_defs)
  show ?thesis
    using C3_connect_always_opens [of "connect (new_WebSocketService True initial_panel)"] u
    by (simp add: c)
qed

text \<open>
  C2. The code at two runs in which \<open>disconnect()\<close> is the last call of the
  application. In the first, the connection is open when \<open>disconnect()\<close> is called:
  the \<open>close\<close> event of the socket still runs \<open>onclose\<close>, which schedules a
  reconnection, and the timer constructs a new socket. In the second, a reconnection is
  pending when \<open>disconnect()\<close> is called: the timer is not cancelled and constructs a
  new socket. In both, one reconnection attempt is made after \<open>disconnect()\<close>.
\<close>

theorem C2_reconnect_after_disconnect:
  "(let s = run decode_fixture panel_behaviour
        [Connect, SocketOpen 0, Disconnect, SocketClose 0, TimerFires 0]
        (new_WebSocketService True initial_panel)
    in timeouts (trace s) = [2000] \<and> reconnections (trace s) = 1 \<and>
       sockets s = [\<lparr>readyState = CLOSED, handlers_set = True\<rparr>,
                    \<lparr>readyState = CONNECTING, handlers_set = True\<rparr>] \<and>
       ws s = Some 1) \<and>
   (let s = run decode_fixture panel_behaviour
        [Connect, SocketOpen 0, SocketClose 0, Disconnect, TimerFires 0]
        (new_WebSocketService True initial_panel)
    in timeouts (trace s) = [2000] \<and> reconnections (trace s) = 1 \<and>
       sockets s = [\<lparr>readyState = CLOSED, handlers_set = True\<rparr>,
                    \<lparr>readyState = CONNECTING, handlers_set = True\<rparr>] \<and>
       ws s = Some 1)"
  by (simp add: service_defs)

section \<open>Frames that do not parse\<close>

text \<open>
  C6. When \<open>JSON.parse\<close> throws on the text of a frame, \<open>onmessage\<close> returns
  normally (it raises nothing to its caller) and the only change of state is one more
  line on the error console: no handler is called, the sockets and \<open>ws\<close> are as
  before (the connection is not terminated), no timer is set, and the state of the
  application is untouched.
\<close>

theorem C6_unparsable_frame_dropped:
  "JSON_parse data = Inl e \<longrightarrow>
     onmessage JSON_parse beh data s =
       (s\<lparr>trace := trace s @ [ConsoleError ''Error parsing WebSocket message:'']\<rparr>, None) \<and>
     invoked (trace (fst (onmessage JSON_parse beh data s))) = invoked (trace s) \<and>
     sockets (step JSON_parse beh (SocketMessage k data) s) = sockets s \<and>
     ws (step JSON_parse beh (SocketMessage k data) s) = ws s \<and>
     timers (step JSON_parse beh (SocketMessage k data) s) = timers s \<and>
     app (step JSON_parse beh (SocketMessage k data) s) = app s \<and>
     invoked (trace (step JSON_parse beh (SocketMessage k data) s)) = invoked (trace s)"
  by (simp add: onmessage_def onmessage_try_def console_error_def invoked_append)

theorem C6_unparsable_frame_dropped_witness:
  "(let s = run decode_fixture panel_behaviour [AddMessageHandler 7, Connect, SocketOpen 0]
              (new_WebSocketService True initial_panel);
        s' = step decode_fixture panel_behaviour (SocketMessage 0 ''{bad'') s
    in trace s' = trace s @ [ConsoleError ''Error parsing WebSocket message:''] \<and>
       sockets s' = [\<lparr>readyState = OPEN, handlers_set = True\<rparr>] \<and>
       invoked (trace s') = [])"
proof -
  define s where "s = run decode_fixture panel_behaviour [AddMessageHandler 7, Connect, SocketOpen 0]
              (new_WebSocketService True initial_panel)"
  have d: "decode_fixture ''{bad'' = Inl SyntaxError"
    by (simp add: decode_fixture_def)
  have s: "sockets s = [\<lparr>readyState = OPEN, handlers_set = True\<rparr>]" "invoked (trace s) = []"
    by (simp_all add: s_def service_defs)
  have "trace (step decode_fixture panel_behaviour (SocketMessage 0 ''{bad'') s)
          = trace s @ [ConsoleError ''Error parsing WebSocket message:''] \<and>
       sockets (step decode_fixture panel_behaviour (SocketMessage 0 ''{bad'') s)
          = [\<lparr>readyState = OPEN, handlers_set = True\<rparr>] \<and>
       invoked (trace (step decode_fixture panel_behaviour (SocketMessage 0 ''{bad'') s)) = []"
    using C6_unparsable_frame_dropped [of decode_fixture "''{bad''" SyntaxError panel_behaviour s 0] d s
    by (simp add: invoked_append)
  then show ?thesis
    unfolding s_def Let_def .
qed

section \<open>The reconnection cap\<close>

























section \<open>Delivery to the handlers\<close>

lemma do_call_keeps: "keeps a xs s \<Longrightarrow> keeps a xs (do_call c s)"
proof (cases c)
  case (Call_addMessageHandler h)
  assume k: "keeps a xs s"
  show ?thesis
  proof (cases "a = messageHandlers s")
    case True
    with k show ?thesis
      by (simp add: Call_addMessageHandler keeps_def addMessageHandler_def)
  next
    case False
    with k show ?thesis
      by (simp add: Call_addMessageHandler keeps_def addMessageHandler_def)
  qed
next
  case (Call_removeMessageHandler h)
  assume "keeps a xs s"
  then show ?thesis
    by (simp add: Call_removeMessageHandler keeps_def removeMessageHandler_def nth_append)
next
  case Call_connect
  assume "keeps a xs s"
  then show ?thesis
    by (simp add: Call_connect keeps_def service_defs Let_def split: option.splits)
next
  case Call_disconnect
  assume "keeps a xs s"
  then show ?thesis
    by (simp add: Call_disconnect keeps_def service_defs Let_def split: option.splits)
qed

lemma do_call_quiet:
  "invoked (trace (do_call c s)) = invoked (trace s) \<and> app (do_call c s) = app s"
  by (cases c) (simp_all add: service_defs Let_def invoked_append split: option.splits)

lemma do_calls_keeps: "keeps a xs s \<Longrightarrow> keeps a xs (foldl (\<lambda>s c. do_call c s) s cs)"
  by (induction cs arbitrary: s) (simp_all add: do_call_keeps)

lemma do_calls_quiet:
  "invoked (trace (foldl (\<lambda>s c. do_call c s) s cs)) = invoked (trace s) \<and>
   app (foldl (\<lambda>s c. do_call c s) s cs) = app s"
  by (induction cs arbitrary: s) (simp_all add: do_call_quiet)

lemma call_handler_result:
  assumes "beh h m (app s) = (w', cs, r)"
  shows "snd (call_handler beh h m s) = r \<and>
     app (fst (call_handler beh h m s)) = w' \<and>
     invoked (trace (fst (call_handler beh h m s))) = invoked (trace s) @ [(h, m)] \<and>
     (keeps a xs s \<longrightarrow> keeps a xs (fst (call_handler beh h m s)))"
proof -
  let ?s1 = "s\<lparr>app := w', trace := trace s @ [Invoked h m]\<rparr>"
  have c: "call_handler beh h m s = (foldl (\<lambda>s c. do_call c s) ?s1 cs, r)"
    using assms by (simp add: call_handler_def)
  have "keeps a xs s \<Longrightarrow> keeps a xs ?s1" by (simp add: keeps_def)
  then show ?thesis
    by (simp add: c do_calls_quiet invoked_append do_calls_keeps)
qed

lemma forEach_from_snapshot:
  "keeps a xs s \<Longrightarrow> k + n = length xs \<Longrightarrow>
     invoked (trace (fst (forEach_from beh m a k n s))) =
       invoked (trace s) @ map (\<lambda>h. (h, m)) (fst (snapshot_delivery beh m (drop k xs) (app s))) \<and>
     snd (forEach_from beh m a k n s) = snd (snapshot_delivery beh m (drop k xs) (app s)) \<and>
     keeps a xs (fst (forEach_from beh m a k n s))"
proof (induction n arbitrary: k s)
  case 0
  then show ?case by simp
next
  case (Suc n)
  from Suc.prems have kx: "k < length xs" by simp
  from Suc.prems have p: "prefix xs (arrays s ! a)" by (simp add: keeps_def)
  then have kl: "k < length (arrays s ! a)"
    using kx prefix_length_le by fastforce
  from p kx have nth: "arrays s ! a ! k = xs ! k"
    by (auto simp: prefix_def nth_append)
  have dr: "drop k xs = xs ! k # drop (Suc k) xs"
    using kx by (simp add: Cons_nth_drop_Suc)
  obtain w' cs r where b: "beh (xs ! k) m (app s) = (w', cs, r)"
    by (cases "beh (xs ! k) m (app s)")
  obtain s' where s': "s' = fst (call_handler beh (xs ! k) m s)" by simp
  from call_handler_result [of beh "xs ! k" m s w' cs r a xs] b Suc.prems(1)
  have ch: "call_handler beh (xs ! k) m s = (s', r)" "app s' = w'"
    "invoked (trace s') = invoked (trace s) @ [(xs ! k, m)]" "keeps a xs s'"
    unfolding s' by (simp_all add: prod_eq_iff)
  show ?case
  proof (cases r)
    case (Some e)
    then show ?thesis
      using kl nth dr b ch by simp
  next
    case None
    from Suc.prems have "Suc k + n = length xs" by simp
    from Suc.IH [OF ch(4) this] show ?thesis
      using kl nth dr b ch None by (simp add: split_beta)
  qed
qed

lemma forEach_snapshot:
  assumes "messageHandlers s < length (arrays s)"
  shows "invoked (trace (fst (forEach beh m s))) =
       invoked (trace s) @ map (\<lambda>h. (h, m)) (fst (snapshot_delivery beh m (registered s) (app s)))"
    and "snd (forEach beh m s) = snd (snapshot_delivery beh m (registered s) (app s))"
    and "messageHandlers (fst (forEach beh m s)) < length (arrays (fst (forEach beh m s)))"
proof -
  have k: "keeps (messageHandlers s) (registered s) s"
    using assms by (simp add: keeps_def registered_def)
  from forEach_from_snapshot [OF k, of 0 "length (registered s)" beh m]
  show "invoked (trace (fst (forEach beh m s))) =
       invoked (trace s) @ map (\<lambda>h. (h, m)) (fst (snapshot_delivery beh m (registered s) (app s)))"
    and "snd (forEach beh m s) = snd (snapshot_delivery beh m (registered s) (app s))"
    and "messageHandlers (fst (forEach beh m s)) < length (arrays (fst (forEach beh m s)))"
    by (simp_all add: forEach_def registered_def keeps_def)
qed

lemma snapshot_delivery_without_calls:
  "snapshot_delivery (without_calls beh) m hs w = snapshot_delivery beh m hs w"
  by (induction hs arbitrary: w) (auto simp: without_calls_def split: prod.splits option.splits)

lemma snapshot_delivery_complete:
  "snd (snapshot_delivery beh m hs w) = None \<Longrightarrow> fst (snapshot_delivery beh m hs w) = hs"
  by (induction hs arbitrary: w) (auto simp: split_beta split: option.splits)

lemma snapshot_delivery_prefix:
  "prefix (fst (snapshot_delivery beh m hs w)) hs"
  by (induction hs arbitrary: w) (auto simp: split_beta split: option.splits)




lemma onmessage_decoded:
  assumes "JSON_parse data = Inr m"
  shows "snd (onmessage JSON_parse beh data s) = None"
    and "invoked (trace (fst (onmessage JSON_parse beh data s))) = invoked (trace (fst (forEach beh m s)))"
    and "sockets (fst (onmessage JSON_parse beh data s)) = sockets (fst (forEach beh m s))"
    and "ws (fst (onmessage JSON_parse beh data s)) = ws (fst (forEach beh m s))"
    and "timers (fst (onmessage JSON_parse beh data s)) = timers (fst (forEach beh m s))"
    and "arrays (fst (onmessage JSON_parse beh data s)) = arrays (fst (forEach beh m s))"
    and "messageHandlers (fst (onmessage JSON_parse beh data s)) = messageHandlers (fst (forEach beh m s))"
    and "app (fst (onmessage JSON_parse beh data s)) = app (fst (forEach beh m s))"
    and "snd (onmessage_try JSON_parse beh data s) = snd (forEach beh m s)"
  using assms
  by (simp_all add: onmessage_def onmessage_try_def console_error_def invoked_append
      split: prod.splits option.splits)

lemma registered_add:
  "messageHandlers s < length (arrays s) \<Longrightarrow> registered (addMessageHandler h s) = registered s @ [h]"
  by (simp add: registered_def addMessageHandler_def)

lemma registered_remove:
  "registered (removeMessageHandler h s) = filter (\<lambda>h'. h' \<noteq> h) (registered s)"
  by (simp add: registered_def removeMessageHandler_def)

text \<open>
  C9. For a service whose current array is allocated and a frame that decodes to \<open>m\<close>:
  the handlers called for \<open>m\<close> are exactly those a delivery over the list registered
  when the delivery began would call, in the order of that list, if no handler made any
  call to the service; so no \<open>removeMessageHandler\<close> (or other call) made by a
  handler during the delivery changes who receives \<open>m\<close>. When the \<open>try\<close> block
  ends without an exception, that is every handler of the list. The list is in
  registration order: \<open>addMessageHandler\<close> appends to it, \<open>removeMessageHandler\<close>
  filters it and keeps the order of the rest.
\<close>

theorem C9_delivery_over_snapshot:
  "messageHandlers s < length (arrays s) \<and> JSON_parse data = Inr m \<longrightarrow>
     invoked (trace (fst (onmessage JSON_parse beh data s))) =
       invoked (trace s) @
       map (\<lambda>x. (x, m)) (fst (snapshot_delivery (without_calls beh) m (registered s) (app s))) \<and>
     (snd (onmessage_try JSON_parse beh data s) = None \<longrightarrow>
        invoked (trace (fst (onmessage JSON_parse beh data s))) =
          invoked (trace s) @ map (\<lambda>x. (x, m)) (registered s)) \<and>
     registered (addMessageHandler h s) = registered s @ [h] \<and>
     registered (removeMessageHandler h s) = filter (\<lambda>h'. h' \<noteq> h) (registered s)"
proof (intro impI, elim conjE)
  assume wf: "messageHandlers s < length (arrays s)" and d: "JSON_parse data = Inr m"
  have i: "invoked (trace (fst (onmessage JSON_parse beh data s))) =
       invoked (trace s) @ map (\<lambda>x. (x, m)) (fst (snapshot_delivery beh m (registered s) (app s)))"
    using onmessage_decoded(2) [of JSON_parse data m beh s] d forEach_snapshot(1) [OF wf, of beh m]
    by simp
  have r: "snd (onmessage_try JSON_parse beh data s) = snd (snapshot_delivery beh m (registered s) (app s))"
    using onmessage_decoded(9) [of JSON_parse data m beh s] d forEach_snapshot(2) [OF wf, of beh m]
    by simp
  have c: "snd (onmessage_try JSON_parse beh data s) = None \<Longrightarrow>
        invoked (trace (fst (onmessage JSON_parse beh data s))) =
          invoked (trace s) @ map (\<lambda>x. (x, m)) (registered s)"
    using i r snapshot_delivery_complete [of beh m "registered s" "app s"] by simp
  show "invoked (trace (fst (onmessage JSON_parse beh data s))) =
       invoked (trace s) @
       map (\<lambda>x. (x, m)) (fst (snapshot_delivery (without_calls beh) m (registered s) (app s))) \<and>
     (snd (onmessage_try JSON_parse beh data s) = None \<longrightarrow>
        invoked (trace (fst (onmessage JSON_parse beh data s))) =
          invoked (trace s) @ map (\<lambda>x. (x, m)) (registered s)) \<and>
     registered (addMessageHandler h s) = registered s @ [h] \<and>
     registered (removeMessageHandler h s) = filter (\<lambda>h'. h' \<noteq> h) (registered s)"
    using i c by (simp add: snapshot_delivery_without_calls registered_add [OF wf] registered_remove)
qed

lemma listening_service_eq:
  "listening_service =
     \<lparr>url_ok = True, ws = Some 0, reconnectAttempts = 0, messageHandlers = 0,
      arrays = [[1, 2, 3]], sockets = [\<lparr>readyState = OPEN, handlers_set = True\<rparr>], timers = [],
      trace = [NewWebSocket 0, ConsoleLog ''WebSocket connected''], app = 0\<rparr>"
  by (simp add: listening_service_def service_defs)

lemma decode_fixture_simps:
  "decode_fixture ''null'' = Inr JsonNull"
  "decode_fixture ''{}'' = Inr (OtherType [])"
  by (simp_all add: decode_fixture_def)

lemma step_message_open:
  "k < length (sockets s) \<Longrightarrow> readyState (sockets s ! k) = OPEN \<Longrightarrow> handlers_set (sockets s ! k) \<Longrightarrow>
     step JSON_parse beh (SocketMessage k data) s = fst (onmessage JSON_parse beh data s)"
  by simp

lemma registered_after_object:
  "registered (step decode_fixture counting_behaviour (SocketMessage 0 ''{}'') listening_service) = [2, 3]"
  by (simp add: listening_service_eq decode_fixture_simps onmessage_def onmessage_try_def
      forEach_def call_handler_def counting_behaviour_def removeMessageHandler_def registered_def
      console_error_def)

theorem C9_delivery_over_snapshot_witness:
  "invoked (trace (step decode_fixture counting_behaviour (SocketMessage 0 ''{}'') listening_service))
     = [(1, OtherType []), (2, OtherType []), (3, OtherType [])] \<and>
   registered (step decode_fixture counting_behaviour (SocketMessage 0 ''{}'') listening_service)
     = [2, 3]"
proof -
  have st: "step decode_fixture counting_behaviour (SocketMessage 0 ''{}'') listening_service
      = fst (onmessage decode_fixture counting_behaviour ''{}'' listening_service)"
    by (rule step_message_open) (simp_all add: listening_service_eq)
  have wf: "messageHandlers listening_service < length (arrays listening_service)"
    by (simp add: listening_service_eq)
  have r: "registered listening_service = [1, 2, 3]" "app listening_service = 0"
    "invoked (trace listening_service) = []"
    by (simp_all add: listening_service_eq registered_def)
  have sd: "fst (snapshot_delivery (without_calls counting_behaviour) (OtherType []) [1, 2, 3] 0)
      = [1, 2, 3]"
    by (simp add: without_calls_def counting_behaviour_def)
  have "invoked (trace (fst (onmessage decode_fixture counting_behaviour ''{}'' listening_service)))
     = invoked (trace listening_service) @
       map (\<lambda>x. (x, OtherType []))
         (fst (snapshot_delivery (without_calls counting_behaviour) (OtherType [])
                (registered listening_service) (app listening_service)))"
    by (rule C9_delivery_over_snapshot
      [of listening_service decode_fixture "''{}''" "OtherType []" counting_behaviour 0,
       THEN mp, OF conjI [OF wf decode_fixture_simps(2)], THEN conjunct1])
  then have "invoked (trace (fst (onmessage decode_fixture counting_behaviour ''{}'' listening_service)))
     = [] @ map (\<lambda>x. (x, OtherType [])) [1, 2, 3]"
    unfolding r sd .
  then have i: "invoked (trace (step decode_fixture counting_behaviour (SocketMessage 0 ''{}'')
        listening_service)) = [(1, OtherType []), (2, OtherType []), (3, OtherType [])]"
    unfolding st by simp
  from i registered_after_object show ?thesis
    by (rule conjI)
qed








end
